theory Spec2Isabelle
  imports Main "HOL-Library.Sublist"
begin

section \<open>Port 25 connectivity check: values and strings\<close>

text \<open>
  The module \<^verbatim>\<open>checkPort25\<close> exports three functions: \<^verbatim>\<open>testSingleHost\<close> (one probe of one
  host), \<^verbatim>\<open>classifyPort25Error\<close> (the error taxonomy) and \<^verbatim>\<open>checkPort25Connectivity\<close> (the
  sequential check of five hosts). They are embedded here in that order of dependency.

  A JavaScript string is a \<^typ>\<open>string\<close>: a list of code units, of which \<^typ>\<open>char\<close> holds
  those below 256. A property that may be \<^verbatim>\<open>undefined\<close> is an \<^typ>\<open>'a option\<close>.
\<close>

subsection \<open>String methods\<close>

definition str_includes :: "string \<Rightarrow> string \<Rightarrow> bool" where
  \<comment> \<open>\<^verbatim>\<open>s.includes(t)\<close>: \<open>t\<close> occurs in \<open>s\<close> as a contiguous run, case-sensitively.\<close>
  "str_includes s t = sublist t s"

definition startsWith :: "string \<Rightarrow> string \<Rightarrow> bool" where
  \<comment> \<open>\<^verbatim>\<open>s.startsWith(p)\<close>\<close>
  "startsWith s p = prefix p s"

definition isWhiteSpace :: "char \<Rightarrow> bool" where
  \<comment> \<open>The code units below 256 that \<^verbatim>\<open>String.prototype.trim\<close> strips: TAB, LF, VT, FF, CR,
      SPACE and NO-BREAK SPACE.\<close>
  "isWhiteSpace c =
     (c \<in> set [CHR 0x09, CHR 0x0A, CHR 0x0B, CHR 0x0C, CHR 0x0D, CHR 0x20, CHR 0xA0])"

definition trim :: "string \<Rightarrow> string" where
  \<comment> \<open>\<^verbatim>\<open>s.trim()\<close>\<close>
  "trim s = rev (dropWhile isWhiteSpace (rev (dropWhile isWhiteSpace s)))"

definition or_else :: "string option \<Rightarrow> string \<Rightarrow> string" where
  \<comment> \<open>\<^verbatim>\<open>v || d\<close> on a possibly-undefined string: \<^verbatim>\<open>undefined\<close> and the empty string are
      falsy, every other string is truthy.\<close>
  "or_else v d = (case v of None \<Rightarrow> d | Some s \<Rightarrow> if s = [] then d else s)"

subsection \<open>Errors\<close>

text \<open>
  An error object as the classifier reads it: only \<^verbatim>\<open>error.code\<close> and \<^verbatim>\<open>error.message\<close> are
  looked at. \<^verbatim>\<open>new Error(msg)\<close> has no code and the message \<open>msg\<close>.
\<close>

record js_error =
  code :: "string option"
  message :: "string option"

definition new_Error :: "string \<Rightarrow> js_error" where
  "new_Error msg = \<lparr>code = None, message = Some msg\<rparr>"

text \<open>The exception the runtime raises when a method is called on \<^verbatim>\<open>undefined\<close>.\<close>

datatype js_exception = TypeError

text \<open>The \<^verbatim>\<open>blocked\<close> field holds \<^verbatim>\<open>true\<close>, \<^verbatim>\<open>false\<close> or the string \<^verbatim>\<open>'unknown'\<close>.\<close>

datatype js_value = JBool bool | JString string

record classified =
  blocked :: js_value
  reason :: string
  severity :: string
  errorCode :: "string option"

section \<open>classifyPort25Error\<close>

text \<open>
  The rules are tried in the order of the source. The second rule evaluates
  \<^verbatim>\<open>errorCode === 'ETIMEDOUT' || errorMessage.includes('timeout')\<close>: the right operand is
  evaluated only when the left one is false, and then \<^verbatim>\<open>errorMessage.includes\<close> raises a
  \<^verbatim>\<open>TypeError\<close> if the message is \<^verbatim>\<open>undefined\<close>.
\<close>

definition timeout_rule :: "string option \<Rightarrow> string option \<Rightarrow> js_exception + bool" where
  "timeout_rule error_code error_message =
     (if error_code = Some ''ETIMEDOUT'' then Inr True
      else case error_message of
             None \<Rightarrow> Inl TypeError
           | Some m \<Rightarrow> Inr (str_includes m ''timeout''))"

definition classifyPort25Error :: "js_error \<Rightarrow> js_exception + classified" where
  "classifyPort25Error err =
     (let error_code = code err;
          error_message = message err
      in
      if error_code = Some ''ECONNREFUSED'' then
        Inr \<lparr>blocked = JBool True,
             reason = ''Connection refused - Port 25 likely blocked by firewall/ISP'',
             severity = ''high'',
             errorCode = error_code\<rparr>
      else case timeout_rule error_code error_message of
        Inl exn \<Rightarrow> Inl exn
      | Inr True \<Rightarrow>
          Inr \<lparr>blocked = JBool True,
               reason = ''Connection timeout - Port 25 may be blocked or server unavailable'',
               severity = ''medium'',
               errorCode = Some (or_else error_code ''TIMEOUT'')\<rparr>
      | Inr False \<Rightarrow>
          if error_code = Some ''ENETUNREACH'' \<or> error_code = Some ''EHOSTUNREACH'' then
            Inr \<lparr>blocked = JBool True,
                 reason = ''Network unreachable - Check network configuration'',
                 severity = ''high'',
                 errorCode = error_code\<rparr>
          else if error_code = Some ''ENOTFOUND'' then
            Inr \<lparr>blocked = JBool False,
                 reason = ''DNS resolution failed - Server hostname not found'',
                 severity = ''low'',
                 errorCode = error_code\<rparr>
          else if error_code = Some ''EADDRINUSE'' then
            Inr \<lparr>blocked = JBool False,
                 reason = ''Address in use - Temporary issue, retry recommended'',
                 severity = ''low'',
                 errorCode = error_code\<rparr>
          else
            Inr \<lparr>blocked = JString ''unknown'',
                 reason = or_else error_message ''Unknown error'',
                 severity = ''medium'',
                 errorCode = Some (or_else error_code ''UNKNOWN'')\<rparr>)"

section \<open>testSingleHost\<close>

text \<open>
  \<^verbatim>\<open>testSingleHost(hostname, timeout)\<close> creates a socket, registers five handlers and calls
  \<^verbatim>\<open>socket.connect(25, hostname)\<close>. What happens next is decided by the network: the runtime
  calls the handlers one at a time, in the order in which the socket emits its events. The
  embedding therefore takes the behaviour of the socket as an input and returns the state
  in which the closure variables, the promise and the socket are left.
\<close>

datatype event =
    Connect
  | Data string   \<comment> \<open>the chunk, given by its text \<^verbatim>\<open>data.toString()\<close>\<close>
  | Timeout
  | Error js_error
  | Close

text \<open>
  The behaviour of one socket: the value of \<^verbatim>\<open>Date.now()\<close> when the probe starts, the
  exception thrown by \<^verbatim>\<open>socket.connect\<close> (if any), and the events emitted afterwards, each
  with the value of \<^verbatim>\<open>Date.now()\<close> while its handler runs.
\<close>

record socket_behaviour =
  date_now :: int
  connect_throws :: "js_error option"
  emitted :: "(int \<times> event) list"

record probe_result =
  success :: bool
  responseTime :: int
  banner :: string

datatype promise = Pending | Resolved probe_result | Rejected js_error

record probe_state =
  smtpBanner :: string
  connected :: bool
  settled :: promise
  destroyCalls :: nat   \<comment> \<open>how many times \<^verbatim>\<open>socket.destroy()\<close> has been called\<close>

text \<open>
  \<^verbatim>\<open>resolve\<close> and \<^verbatim>\<open>reject\<close> are the two functions the runtime hands to the promise
  executor: they settle a pending promise and do nothing to a settled one.
\<close>

definition resolve :: "probe_result \<Rightarrow> probe_state \<Rightarrow> probe_state" where
  "resolve v s = (if settled s = Pending then s\<lparr>settled := Resolved v\<rparr> else s)"

definition reject :: "js_error \<Rightarrow> probe_state \<Rightarrow> probe_state" where
  "reject e s = (if settled s = Pending then s\<lparr>settled := Rejected e\<rparr> else s)"

definition socket_destroy :: "probe_state \<Rightarrow> probe_state" where
  "socket_destroy s = s\<lparr>destroyCalls := Suc (destroyCalls s)\<rparr>"

definition on_connect :: "probe_state \<Rightarrow> probe_state" where
  "on_connect s = s\<lparr>connected := True\<rparr>"

definition on_data :: "int \<Rightarrow> int \<Rightarrow> string \<Rightarrow> probe_state \<Rightarrow> probe_state" where
  "on_data startTime now data s =
     (let s1 = s\<lparr>smtpBanner := trim data\<rparr> in
      if startsWith (smtpBanner s1) ''220'' then
        resolve \<lparr>probe_result.success = True,
                 responseTime = now - startTime,
                 banner = smtpBanner s1\<rparr>
          (socket_destroy s1)
      else
        reject (new_Error (''Invalid SMTP banner received: '' @ smtpBanner s1))
          (socket_destroy s1))"

definition on_timeout :: "probe_state \<Rightarrow> probe_state" where
  "on_timeout s = reject (new_Error ''Connection timeout'') (socket_destroy s)"

definition on_error :: "js_error \<Rightarrow> probe_state \<Rightarrow> probe_state" where
  "on_error err s = reject err (socket_destroy s)"

definition on_close :: "probe_state \<Rightarrow> probe_state" where
  \<comment> \<open>\<^verbatim>\<open>!smtpBanner\<close> holds exactly when the banner is the empty string.\<close>
  "on_close s =
     (if connected s \<and> smtpBanner s = [] then
        reject (new_Error ''Connection closed without receiving SMTP banner'') s
      else s)"

fun emit :: "int \<Rightarrow> probe_state \<Rightarrow> int \<times> event \<Rightarrow> probe_state" where
  "emit startTime s (now, Connect) = on_connect s"
| "emit startTime s (now, Data data) = on_data startTime now data s"
| "emit startTime s (now, Timeout) = on_timeout s"
| "emit startTime s (now, Error err) = on_error err s"
| "emit startTime s (now, Close) = on_close s"

definition initiate :: "js_error option \<Rightarrow> probe_state" where
  \<comment> \<open>The executor up to its end: the variables initialised, then
      \<^verbatim>\<open>try { socket.connect(25, hostname) } catch (err) { reject(err) }\<close>.\<close>
  "initiate thrown =
     (let s = \<lparr>smtpBanner = [], connected = False, settled = Pending, destroyCalls = 0\<rparr> in
      case thrown of None \<Rightarrow> s | Some err \<Rightarrow> reject err s)"

definition testSingleHost :: "socket_behaviour \<Rightarrow> probe_state" where
  "testSingleHost sock =
     (let startTime = date_now sock in
      foldl (emit startTime) (initiate (connect_throws sock)) (emitted sock))"

section \<open>checkPort25Connectivity\<close>

record target =
  host :: string
  priority :: nat
  provider :: string

definition testTargets :: "target list" where
  "testTargets =
     [\<lparr>host = ''mxshield.brandnav.io'', priority = 1, provider = ''BrandNav''\<rparr>,
      \<lparr>host = ''gmail-smtp-in.l.google.com'', priority = 2, provider = ''Google''\<rparr>,
      \<lparr>host = ''mx-biz.mail.am0.yahoodns.net'', priority = 3, provider = ''Yahoo''\<rparr>,
      \<lparr>host = ''mail.protection.outlook.com'', priority = 4, provider = ''Microsoft''\<rparr>,
      \<lparr>host = ''mx1.zoho.com'', priority = 5, provider = ''Zoho''\<rparr>]"

text \<open>An entry of the \<^verbatim>\<open>errors\<close> array.\<close>

record host_error =
  host :: string
  provider :: string
  error :: "string option"
  reason :: string
  severity :: string
  blocked :: js_value

record report =
  success :: bool
  port25Open :: bool
  canVerifyEmails :: bool
  testedHost :: "string option"
  provider :: "string option"
  attemptedHosts :: "string list"
  responseTime :: "int option"
  totalTime :: int
  smtpBanner :: "string option"
  error :: "string option"
  errors :: "host_error list"
  recommendation :: "string option"
  timestamp :: string

text \<open>
  What the check cannot decide itself: how the socket opened for
  \<^verbatim>\<open>testSingleHost(hostname, timeout)\<close> behaves, the value of \<^verbatim>\<open>Date.now()\<close> on entry and
  when the report is built, and the value of \<^verbatim>\<open>new Date().toISOString()\<close> at that moment.
\<close>

record world =
  net :: "string \<Rightarrow> int \<Rightarrow> socket_behaviour"
  now_on_entry :: int
  now_on_return :: int
  iso_on_return :: string

text \<open>
  An \<^verbatim>\<open>async\<close> function returns a value, throws, or waits for ever on a promise that is
  never settled.
\<close>

datatype 'a completion = Returns 'a | Throws js_exception | Never

definition recommend :: "host_error list \<Rightarrow> string" where
  "recommend errs =
     (let allBlocked = list_all (\<lambda>e. host_error.blocked e = JBool True) errs;
          someUnknown = list_ex (\<lambda>e. host_error.blocked e = JString ''unknown'') errs
      in
      if allBlocked then
        ''Port 25 is blocked by your network/ISP. Consider using a VPS or cloud server with port 25 access for email verification.''
      else if someUnknown then
        ''Unable to determine port 25 status. Some hosts returned unexpected errors. Check your network configuration.''
      else
        ''DNS or network issues detected. Verify your internet connection and DNS settings.'')"

text \<open>
  The loop over the targets, with the two arrays it pushes to; the empty list is the code
  after the loop.
\<close>

fun test_each :: "world \<Rightarrow> target list \<Rightarrow> string list \<Rightarrow> host_error list \<Rightarrow> report completion"
where
  "test_each w [] attempted errs =
     Returns
       \<lparr>report.success = True,
        port25Open = False,
        canVerifyEmails = False,
        testedHost = None,
        provider = None,
        attemptedHosts = attempted,
        responseTime = None,
        totalTime = now_on_return w - now_on_entry w,
        smtpBanner = None,
        error = Some ''All connection attempts failed'',
        errors = errs,
        recommendation = Some (recommend errs),
        timestamp = iso_on_return w\<rparr>"
| "test_each w (tgt # rest) attempted errs =
     (let attempted' = attempted @ [target.host tgt] in
      case settled (testSingleHost (net w (target.host tgt) 5000)) of
        Pending \<Rightarrow> Never
      | Resolved result \<Rightarrow>
          Returns
            \<lparr>report.success = True,
             port25Open = True,
             canVerifyEmails = True,
             testedHost = Some (target.host tgt),
             provider = Some (target.provider tgt),
             attemptedHosts = attempted',
             responseTime = Some (probe_result.responseTime result),
             totalTime = now_on_return w - now_on_entry w,
             smtpBanner = Some (banner result),
             error = None,
             errors = [],
             recommendation = None,
             timestamp = iso_on_return w\<rparr>
      | Rejected err \<Rightarrow>
          (case classifyPort25Error err of
             Inl exn \<Rightarrow> Throws exn
           | Inr cls \<Rightarrow>
               test_each w rest attempted'
                 (errs @ [\<lparr>host_error.host = target.host tgt,
                           provider = target.provider tgt,
                           error = errorCode cls,
                           reason = classified.reason cls,
                           severity = classified.severity cls,
                           blocked = classified.blocked cls\<rparr>])))"

definition checkPort25Connectivity :: "world \<Rightarrow> report completion" where
  "checkPort25Connectivity w = test_each w testTargets [] []"

section \<open>Auxiliary notions for the statements\<close>

text \<open>What the caller's \<^verbatim>\<open>await\<close> of an \<^verbatim>\<open>async\<close> function yields, if anything.\<close>

definition returned :: "'a completion \<Rightarrow> 'a option" where
  "returned c = (case c of Returns r \<Rightarrow> Some r | Throws exn \<Rightarrow> None | Never \<Rightarrow> None)"

text \<open>The promise that the check awaits for a target, in its final state.\<close>

definition awaited :: "world \<Rightarrow> target \<Rightarrow> promise" where
  "awaited w tgt = settled (testSingleHost (net w (target.host tgt) 5000))"

definition succeeded :: "world \<Rightarrow> target \<Rightarrow> bool" where
  "succeeded w tgt = (case awaited w tgt of Resolved res \<Rightarrow> True | _ \<Rightarrow> False)"

text \<open>
  The probe of the target settles, and if it is rejected, the error carries a message (as
  every \<^verbatim>\<open>Error\<close> object does).
\<close>

definition settles_with_message :: "world \<Rightarrow> target \<Rightarrow> bool" where
  "settles_with_message w tgt =
     (case awaited w tgt of
        Pending \<Rightarrow> False
      | Resolved res \<Rightarrow> True
      | Rejected err \<Rightarrow> message err \<noteq> None)"

definition fails_with_message :: "world \<Rightarrow> target \<Rightarrow> bool" where
  "fails_with_message w tgt =
     (case awaited w tgt of Rejected err \<Rightarrow> message err \<noteq> None | _ \<Rightarrow> False)"

text \<open>
  The probe of the target is rejected with code \<^verbatim>\<open>ENOTFOUND\<close> and a message that does not
  contain \<^verbatim>\<open>timeout\<close>.
\<close>

definition fails_name_not_found :: "world \<Rightarrow> target \<Rightarrow> bool" where
  "fails_name_not_found w tgt =
     (case awaited w tgt of
        Rejected err \<Rightarrow>
          code err = Some ''ENOTFOUND'' \<and>
          (case message err of None \<Rightarrow> False | Some m \<Rightarrow> \<not> str_includes m ''timeout'')
      | _ \<Rightarrow> False)"

text \<open>
  The entry of the \<^verbatim>\<open>errors\<close> array that the loop pushes for a target whose probe is
  rejected with an error that the classifier accepts.
\<close>

definition failed_entry :: "world \<Rightarrow> target \<Rightarrow> host_error option" where
  "failed_entry w tgt =
     (case awaited w tgt of
        Rejected err \<Rightarrow>
          (case classifyPort25Error err of
             Inr cls \<Rightarrow>
               Some \<lparr>host_error.host = target.host tgt,
                     provider = target.provider tgt,
                     error = errorCode cls,
                     reason = classified.reason cls,
                     severity = classified.severity cls,
                     blocked = classified.blocked cls\<rparr>
           | Inl exn \<Rightarrow> None)
      | _ \<Rightarrow> None)"

text \<open>The elements of a list up to and including the first one that satisfies \<open>P\<close>.\<close>

definition upto_first :: "('a \<Rightarrow> bool) \<Rightarrow> 'a list \<Rightarrow> 'a list" where
  "upto_first P xs = takeWhile (\<lambda>x. \<not> P x) xs @ take 1 (dropWhile (\<lambda>x. \<not> P x) xs)"

text \<open>
  The errors that the socket hands to the prober are \<^verbatim>\<open>Error\<close> objects: the exception thrown
  by \<^verbatim>\<open>socket.connect\<close> and the argument of every error event carry a message.
\<close>

definition errors_have_messages :: "socket_behaviour \<Rightarrow> bool" where
  "errors_have_messages sock =
     ((case connect_throws sock of None \<Rightarrow> True | Some err \<Rightarrow> message err \<noteq> None) \<and>
      list_all (\<lambda>ev. case ev of Error err \<Rightarrow> message err \<noteq> None | _ \<Rightarrow> True)
        (map snd (emitted sock)))"

definition rejection_has_message :: "probe_state \<Rightarrow> bool" where
  "rejection_has_message s =
     (case settled s of Rejected err \<Rightarrow> message err \<noteq> None | _ \<Rightarrow> True)"


definition quiet :: "probe_state \<Rightarrow> bool \<Rightarrow> bool" where
  "quiet s seen_connect \<longleftrightarrow>
     probe_state.smtpBanner s = [] \<and> connected s = seen_connect \<and>
     (if seen_connect then
        settled s = Pending \<or>
        settled s = Rejected (new_Error ''Connection closed without receiving SMTP banner'')
      else settled s = Pending)"

subsection \<open>Scenarios\<close>

text \<open>
  Socket behaviours in the style of the mocks of the repository's test suite, and worlds
  built from them.
\<close>

definition refusing :: socket_behaviour where
  "refusing =
     \<lparr>date_now = 0, connect_throws = None,
      emitted = [(10, Error \<lparr>code = Some ''ECONNREFUSED'',
                             message = Some ''Connection refused''\<rparr>)]\<rparr>"

definition greeting :: socket_behaviour where
  "greeting =
     \<lparr>date_now = 0, connect_throws = None,
      emitted = [(10, Connect),
                 (20, Data (''220 mx.google.com ESMTP ready'' @ [CHR 0x0D, CHR 0x0A]))]\<rparr>"

definition silent :: socket_behaviour where
  "silent = \<lparr>date_now = 0, connect_throws = None, emitted = [(10, Timeout)]\<rparr>"

definition hanging_up :: socket_behaviour where
  "hanging_up = \<lparr>date_now = 0, connect_throws = None, emitted = [(10, Connect), (20, Close)]\<rparr>"

definition closed_early :: socket_behaviour where
  "closed_early = \<lparr>date_now = 0, connect_throws = None, emitted = [(10, Close)]\<rparr>"

definition unresolvable :: socket_behaviour where
  "unresolvable =
     \<lparr>date_now = 0, connect_throws = None,
      emitted = [(10, Error \<lparr>code = Some ''ENOTFOUND'',
                             message = Some ''DNS lookup failed''\<rparr>)]\<rparr>"

definition dns_timeout :: socket_behaviour where
  "dns_timeout =
     \<lparr>date_now = 0, connect_throws = None,
      emitted = [(10, Error \<lparr>code = Some ''ENOTFOUND'',
                             message = Some ''DNS lookup timeout''\<rparr>)]\<rparr>"

definition everywhere :: "socket_behaviour \<Rightarrow> world" where
  "everywhere sock =
     \<lparr>net = (\<lambda>hostname timeout. sock),
      now_on_entry = 0, now_on_return = 100,
      iso_on_return = ''2026-01-01T00:00:00.000Z''\<rparr>"

definition first_then :: "socket_behaviour \<Rightarrow> socket_behaviour \<Rightarrow> world" where
  "first_then sock1 sock2 =
     \<lparr>net = (\<lambda>hostname timeout. if hostname = ''mxshield.brandnav.io'' then sock1 else sock2),
      now_on_entry = 0, now_on_return = 100,
      iso_on_return = ''2026-01-01T00:00:00.000Z''\<rparr>"

text \<open>The report of a check whose second probe is greeted, after the first one failed.\<close>

definition fallback_report :: report where
  "fallback_report =
     \<lparr>report.success = True,
      port25Open = True,
      canVerifyEmails = True,
      testedHost = Some ''gmail-smtp-in.l.google.com'',
      provider = Some ''Google'',
      attemptedHosts = [''mxshield.brandnav.io'', ''gmail-smtp-in.l.google.com''],
      responseTime = Some 20,
      totalTime = 100,
      smtpBanner = Some ''220 mx.google.com ESMTP ready'',
      error = None,
      errors = [],
      recommendation = None,
      timestamp = ''2026-01-01T00:00:00.000Z''\<rparr>"

section \<open>Lemmas\<close>

lemmas scenario_defs = refusing_def greeting_def silent_def hanging_up_def closed_early_def
  unresolvable_def dns_timeout_def everywhere_def first_then_def

lemmas probe_defs = testSingleHost_def initiate_def on_connect_def on_data_def on_timeout_def
  on_error_def on_close_def resolve_def reject_def socket_destroy_def new_Error_def
  startsWith_def trim_def isWhiteSpace_def Let_def

lemmas check_defs = checkPort25Connectivity_def testTargets_def classifyPort25Error_def
  timeout_rule_def or_else_def recommend_def

subsection \<open>Strings\<close>

lemma str_includes_iff: "str_includes s t \<longleftrightarrow> (\<exists>ps ss. s = ps @ t @ ss)"
  by (simp add: str_includes_def sublist_def)

lemma timeout_in_Connection_timeout: "str_includes ''Connection timeout'' ''timeout''"
  unfolding str_includes_def by code_simp

lemma timeout_in_DNS_lookup_timeout: "str_includes ''DNS lookup timeout'' ''timeout''"
  unfolding str_includes_def by code_simp

lemma no_timeout_in_DNS_lookup_failed: "\<not> str_includes ''DNS lookup failed'' ''timeout''"
  unfolding str_includes_def by code_simp

lemma no_timeout_in_Connection_refused: "\<not> str_includes ''Connection refused'' ''timeout''"
  unfolding str_includes_def by code_simp

lemma no_timeout_in_empty: "\<not> str_includes [] ''timeout''"
  unfolding str_includes_def by code_simp

lemma dns_text_includes:
  "str_includes
     ''DNS or network issues detected. Verify your internet connection and DNS settings.''
     ''DNS or network issues''"
  unfolding str_includes_def by code_simp

lemma blocked_text_excludes:
  "\<not> str_includes
     ''Port 25 is blocked by your network/ISP. Consider using a VPS or cloud server with port 25 access for email verification.''
     ''DNS or network issues''"
  unfolding str_includes_def by code_simp

lemma upto_first_Nil: "upto_first P [] = []"
  by (simp add: upto_first_def)

lemma upto_first_Cons: "upto_first P (x # xs) = (if P x then [x] else x # upto_first P xs)"
  by (simp add: upto_first_def)

lemma upto_first_prefix: "prefix (upto_first P xs) xs"
  by (induction xs) (simp_all add: upto_first_Nil upto_first_Cons)

lemma upto_first_none: "\<forall>x\<in>set xs. \<not> P x \<Longrightarrow> upto_first P xs = xs"
  by (induction xs) (simp_all add: upto_first_Nil upto_first_Cons)

subsection \<open>The classifier\<close>

lemma timeout_rule_Some:
  "timeout_rule c (Some m) = Inr (c = Some ''ETIMEDOUT'' \<or> str_includes m ''timeout'')"
  by (simp add: timeout_rule_def)

lemma classify_defined:
  "message err = Some m \<Longrightarrow> \<exists>cls. classifyPort25Error err = Inr cls"
  by (auto simp add: classifyPort25Error_def Let_def timeout_rule_Some
        split: bool.splits option.splits)

subsection \<open>The prober\<close>

lemma testSingleHost_append:
  "testSingleHost (sock\<lparr>emitted := emitted sock @ later\<rparr>) =
     foldl (emit (date_now sock)) (testSingleHost sock) later"
  by (simp add: testSingleHost_def Let_def)

lemma emit_keeps_outcome:
  "settled s \<noteq> Pending \<Longrightarrow> settled (emit t0 s ev) = settled s"
proof (cases ev)
  case (Pair now e)
  assume "settled s \<noteq> Pending"
  then show ?thesis unfolding Pair
    by (cases e)
       (simp_all add: on_connect_def on_data_def on_timeout_def on_error_def on_close_def
          resolve_def reject_def socket_destroy_def Let_def)
qed

lemma foldl_emit_keeps_outcome:
  "settled s \<noteq> Pending \<Longrightarrow> settled (foldl (emit t0) s evs) = settled s"
  by (induction evs arbitrary: s) (simp_all add: emit_keeps_outcome)






lemma rejection_has_message_emit:
  assumes "rejection_has_message s"
      and "case ev of Error err \<Rightarrow> message err \<noteq> None | _ \<Rightarrow> True"
  shows "rejection_has_message (emit t0 s (now, ev))"
  using assms
  by (cases ev)
     (auto simp add: rejection_has_message_def on_connect_def on_data_def on_timeout_def
        on_error_def on_close_def resolve_def reject_def socket_destroy_def new_Error_def Let_def
        split: promise.splits)

lemma rejection_has_message_foldl:
  assumes "rejection_has_message s"
      and "list_all (\<lambda>ev. case ev of Error err \<Rightarrow> message err \<noteq> None | _ \<Rightarrow> True) (map snd evs)"
  shows "rejection_has_message (foldl (emit t0) s evs)"
  using assms
proof (induction evs arbitrary: s)
  case Nil
  then show ?case by simp
next
  case (Cons x evs)
  obtain now ev where x: "x = (now, ev)" by (cases x)
  from Cons.prems have "rejection_has_message (emit t0 s (now, ev))"
    by (simp add: x rejection_has_message_emit)
  with Cons.IH Cons.prems show ?case by (simp add: x)
qed

lemma rejections_carry_messages:
  assumes "errors_have_messages sock"
      and "settled (testSingleHost sock) = Rejected err"
  shows "message err \<noteq> None"
proof -
  from assms(1) have "rejection_has_message (initiate (connect_throws sock))"
    by (cases "connect_throws sock")
       (simp_all add: errors_have_messages_def rejection_has_message_def initiate_def reject_def)
  with assms(1) have "rejection_has_message (testSingleHost sock)"
    by (simp add: testSingleHost_def Let_def errors_have_messages_def rejection_has_message_foldl)
  with assms(2) show ?thesis
    by (simp add: rejection_has_message_def)
qed

lemma quiet_run:
  assumes "\<forall>ev\<in>snd ` set evs. ev = Connect \<or> ev = Close"
  shows "quiet (foldl (emit t0) (initiate None) evs) (Connect \<in> snd ` set evs)"
  using assms
proof (induction evs rule: rev_induct)
  case Nil
  then show ?case by (simp add: quiet_def initiate_def)
next
  case (snoc x evs)
  obtain now ev where x: "x = (now, ev)" by (cases x)
  from snoc.prems have "\<forall>ev\<in>snd ` set evs. ev = Connect \<or> ev = Close"
    and ev: "ev = Connect \<or> ev = Close"
    by (auto simp add: x)
  with snoc.IH have q: "quiet (foldl (emit t0) (initiate None) evs) (Connect \<in> snd ` set evs)"
    by simp
  from ev show ?case
  proof
    assume "ev = Connect"
    with q show ?thesis
      by (auto simp add: x quiet_def on_connect_def)
  next
    assume "ev = Close"
    with q show ?thesis
      by (auto simp add: x quiet_def on_close_def reject_def)
  qed
qed

subsection \<open>The loop of the check\<close>

lemma test_each_Returns:
  "test_each w ts att errs = Returns r \<Longrightarrow>
     report.success r \<and>
     attemptedHosts r = att @ map target.host (upto_first (succeeded w) ts) \<and>
     (port25Open r \<longrightarrow>
        (\<exists>t\<in>set ts. succeeded w t) \<and> report.errors r = [] \<and>
        testedHost r \<noteq> None \<and> report.provider r \<noteq> None) \<and>
     (\<not> port25Open r \<longrightarrow>
        (\<forall>t\<in>set ts. \<not> succeeded w t) \<and>
        map Some (report.errors r) = map Some errs @ map (failed_entry w) ts \<and>
        testedHost r = None \<and> report.provider r = None \<and>
        recommendation r = Some (recommend (report.errors r)))"
proof (induction ts arbitrary: att errs)
  case Nil
  then show ?case by (auto simp add: upto_first_Nil)
next
  case (Cons tgt rest)
  show ?case
  proof (cases "awaited w tgt")
    case Pending
    with Cons.prems show ?thesis by (simp add: awaited_def)
  next
    case (Resolved res)
    with Cons.prems show ?thesis
      by (auto simp add: awaited_def succeeded_def upto_first_Cons)
  next
    case (Rejected err)
    show ?thesis
    proof (cases "classifyPort25Error err")
      case (Inl exn)
      with Rejected Cons.prems show ?thesis by (simp add: awaited_def)
    next
      case (Inr cls)
      let ?e = "\<lparr>host_error.host = target.host tgt, provider = target.provider tgt,
                  error = errorCode cls, reason = classified.reason cls,
                  severity = classified.severity cls, blocked = classified.blocked cls\<rparr>"
      from Rejected Inr Cons.prems
      have "test_each w rest (att @ [target.host tgt]) (errs @ [?e]) = Returns r"
        by (simp add: awaited_def)
      from Cons.IH [OF this] Rejected Inr show ?thesis
        by (simp add: succeeded_def failed_entry_def upto_first_Cons)
    qed
  qed
qed

lemma test_each_total:
  "\<forall>t\<in>set ts. settles_with_message w t \<Longrightarrow> \<exists>r. test_each w ts att errs = Returns r"
proof (induction ts arbitrary: att errs)
  case Nil
  then show ?case by simp
next
  case (Cons tgt rest)
  then have ok: "settles_with_message w tgt"
    and rest: "\<forall>t\<in>set rest. settles_with_message w t"
    by simp_all
  show ?case
  proof (cases "awaited w tgt")
    case Pending
    with ok show ?thesis by (simp add: settles_with_message_def)
  next
    case (Resolved res)
    then show ?thesis by (simp add: awaited_def)
  next
    case (Rejected err)
    with ok obtain m where "message err = Some m"
      by (auto simp add: settles_with_message_def)
    then obtain cls where "classifyPort25Error err = Inr cls"
      using classify_defined by blast
    with Rejected Cons.IH [OF rest] show ?thesis
      by (simp add: awaited_def)
  qed
qed

lemma failed_entry_hosts:
  "map Some es = map (failed_entry w) ts \<Longrightarrow> map host_error.host es = map target.host ts"
proof (induction es arbitrary: ts)
  case Nil
  then show ?case by simp
next
  case (Cons e es)
  then obtain t ts' where ts: "ts = t # ts'" by (cases ts) auto
  with Cons.prems have e: "failed_entry w t = Some e"
    and rest: "map Some es = map (failed_entry w) ts'"
    by simp_all
  from e have "host_error.host e = target.host t"
    by (auto simp add: failed_entry_def split: promise.splits sum.splits)
  with Cons.IH [OF rest] ts show ?case by simp
qed

lemma recommend_cases:
  "recommend errs =
     (if \<forall>e\<in>set errs. host_error.blocked e = JBool True then
        ''Port 25 is blocked by your network/ISP. Consider using a VPS or cloud server with port 25 access for email verification.''
      else if \<exists>e\<in>set errs. host_error.blocked e = JString ''unknown'' then
        ''Unable to determine port 25 status. Some hosts returned unexpected errors. Check your network configuration.''
      else
        ''DNS or network issues detected. Verify your internet connection and DNS settings.'')"
  by (simp add: recommend_def list_all_iff list_ex_iff)

lemma fails_with_message_settles: "fails_with_message w t \<Longrightarrow> settles_with_message w t"
  by (auto simp add: fails_with_message_def settles_with_message_def split: promise.splits)

lemma fails_with_message_not_succeeded: "fails_with_message w t \<Longrightarrow> \<not> succeeded w t"
  by (auto simp add: fails_with_message_def succeeded_def split: promise.splits)

lemma not_found_entry:
  assumes "fails_name_not_found w t" and "failed_entry w t = Some e"
  shows "host_error.blocked e = JBool False"
  using assms
  by (auto simp add: fails_name_not_found_def failed_entry_def classifyPort25Error_def Let_def
        timeout_rule_Some split: promise.splits option.splits sum.splits)

lemma not_found_entries:
  "map Some es = map (failed_entry w) ts \<Longrightarrow> \<forall>t\<in>set ts. fails_name_not_found w t \<Longrightarrow>
     \<forall>e\<in>set es. host_error.blocked e = JBool False"
proof (induction es arbitrary: ts)
  case Nil
  then show ?case by simp
next
  case (Cons e es)
  then obtain t ts' where ts: "ts = t # ts'" by (cases ts) auto
  with Cons.prems have e: "failed_entry w t = Some e"
    and rest: "map Some es = map (failed_entry w) ts'"
    and nf: "fails_name_not_found w t"
    and nfs: "\<forall>t\<in>set ts'. fails_name_not_found w t"
    by simp_all
  from not_found_entry [OF nf e] Cons.IH [OF rest nfs] show ?case by simp
qed

subsection \<open>The scenarios\<close>

lemma awaited_first_then_refusing:
  "awaited (first_then refusing greeting) (testTargets ! 0) =
     Rejected \<lparr>code = Some ''ECONNREFUSED'', message = Some ''Connection refused''\<rparr>"
  by (simp add: awaited_def testTargets_def scenario_defs probe_defs)

lemma awaited_first_then_greeting:
  "awaited (first_then sock greeting) (testTargets ! 1) =
     Resolved \<lparr>probe_result.success = True, responseTime = 20,
               banner = ''220 mx.google.com ESMTP ready''\<rparr>"
  by (simp add: awaited_def testTargets_def scenario_defs probe_defs)

lemma check_fallback:
  "checkPort25Connectivity (first_then refusing greeting) = Returns fallback_report"
  by (simp add: check_defs scenario_defs probe_defs fallback_report_def
        no_timeout_in_Connection_refused)

lemma check_all_refusing:
  "\<exists>r. checkPort25Connectivity (everywhere refusing) = Returns r \<and> \<not> port25Open r"
  by (simp add: check_defs scenario_defs probe_defs)

lemma awaited_first_then_silent:
  "awaited (first_then silent greeting) (testTargets ! 0) =
     Rejected (new_Error ''Connection timeout'')"
  by (simp add: awaited_def testTargets_def scenario_defs probe_defs)

lemma unresolvable_everywhere:
  "\<forall>t\<in>set testTargets. fails_with_message (everywhere unresolvable) t"
  "\<forall>t\<in>set testTargets. fails_name_not_found (everywhere unresolvable) t"
  by (simp_all add: fails_with_message_def fails_name_not_found_def awaited_def testTargets_def
        scenario_defs probe_defs no_timeout_in_DNS_lookup_failed)

section \<open>Properties of classifyPort25Error\<close>

text \<open>
  Claim C5, as the code has it. For every error whose code is \<^verbatim>\<open>ETIMEDOUT\<close>, or whose message
  contains the substring \<^verbatim>\<open>timeout\<close> (case-sensitively), and that does not match the earlier
  rule (its code is not \<^verbatim>\<open>ECONNREFUSED\<close>), the classifier returns \<^verbatim>\<open>blocked = true\<close>,
  \<^verbatim>\<open>severity = 'medium'\<close>, the reason
  \<^verbatim>\<open>'Connection timeout - Port 25 may be blocked or server unavailable'\<close> (with a hyphen and
  a capital P), and as \<^verbatim>\<open>errorCode\<close> the code of the input, or \<^verbatim>\<open>'TIMEOUT'\<close> when the code
  is absent or the empty string.
\<close>

theorem classify_timeout:
  assumes "code err \<noteq> Some ''ECONNREFUSED''"
      and "code err = Some ''ETIMEDOUT'' \<or>
           (\<exists>m. message err = Some m \<and> str_includes m ''timeout'')"
  shows "classifyPort25Error err =
           Inr \<lparr>classified.blocked = JBool True,
                reason = ''Connection timeout - Port 25 may be blocked or server unavailable'',
                severity = ''medium'',
                errorCode = Some (case code err of
                                    None \<Rightarrow> ''TIMEOUT''
                                  | Some c \<Rightarrow> if c = [] then ''TIMEOUT'' else c)\<rparr>"
proof -
  have "timeout_rule (code err) (message err) = Inr True"
    using assms(2) by (auto simp add: timeout_rule_def)
  then show ?thesis
    using assms(1) by (simp add: classifyPort25Error_def Let_def or_else_def)
qed

text \<open>The error of the test "should classify timeout message as blocked".\<close>

theorem classify_timeout_witness:
  "code \<lparr>code = None, message = Some ''Connection timeout''\<rparr> \<noteq> Some ''ECONNREFUSED'' \<and>
   str_includes ''Connection timeout'' ''timeout'' \<and>
   classifyPort25Error \<lparr>code = None, message = Some ''Connection timeout''\<rparr> =
     Inr \<lparr>classified.blocked = JBool True,
          reason = ''Connection timeout - Port 25 may be blocked or server unavailable'',
          severity = ''medium'',
          errorCode = Some ''TIMEOUT''\<rparr>"
  using timeout_in_Connection_timeout
    classify_timeout [of "\<lparr>code = None, message = Some ''Connection timeout''\<rparr>"]
  by simp

text \<open>
  The statement with the reason text of the specification (a dash, here in UTF-8, and a
  small p) and with \<^verbatim>\<open>'TIMEOUT'\<close> for an absent code only does not hold: an error whose
  code is the empty string and whose message is \<^verbatim>\<open>timeout\<close> matches the rule, its
  \<^verbatim>\<open>errorCode\<close> becomes \<^verbatim>\<open>'TIMEOUT'\<close>, not the code of the input, and the reason returned is
  not the text of the specification.
\<close>

theorem classify_timeout_counterexample:
  "str_includes ''timeout'' ''timeout'' \<and>
   code \<lparr>code = Some [], message = Some ''timeout''\<rparr> = Some [] \<and>
   classifyPort25Error \<lparr>code = Some [], message = Some ''timeout''\<rparr> =
     Inr \<lparr>classified.blocked = JBool True,
          reason = ''Connection timeout - Port 25 may be blocked or server unavailable'',
          severity = ''medium'',
          errorCode = Some ''TIMEOUT''\<rparr> \<and>
   ''Connection timeout - Port 25 may be blocked or server unavailable'' \<noteq>
     ''Connection timeout '' @ [CHR 0xE2, CHR 0x80, CHR 0x94] @
     '' port 25 may be blocked or server unavailable''"
  by (simp add: classifyPort25Error_def timeout_rule_def str_includes_def or_else_def Let_def)

text \<open>
  Claim C6, as the code has it. The classifier is a function of the code and the message of
  the error alone. It returns a classification exactly when the message is present (a
  string, possibly empty) or the code is \<^verbatim>\<open>ECONNREFUSED\<close> or \<^verbatim>\<open>ETIMEDOUT\<close>; so it is total on
  the errors that carry a message, whether their code is absent or not. In the default case
  (no rule matches) the reason is the raw message, or \<^verbatim>\<open>'Unknown error'\<close> if the message
  is empty, \<^verbatim>\<open>errorCode\<close> is the code, or \<^verbatim>\<open>'UNKNOWN'\<close> if the code is absent or empty,
  \<^verbatim>\<open>severity\<close> is \<^verbatim>\<open>'medium'\<close> and \<^verbatim>\<open>blocked\<close> is \<^verbatim>\<open>'unknown'\<close>.
\<close>

theorem classify_total:
  "((\<exists>cls. classifyPort25Error err = Inr cls) \<longleftrightarrow>
      message err \<noteq> None \<or> code err = Some ''ECONNREFUSED'' \<or> code err = Some ''ETIMEDOUT'') \<and>
   (\<forall>m. message err = Some m \<and>
        code err \<notin> Some ` {''ECONNREFUSED'', ''ETIMEDOUT'', ''ENETUNREACH'', ''EHOSTUNREACH'',
                             ''ENOTFOUND'', ''EADDRINUSE''} \<and>
        \<not> str_includes m ''timeout'' \<longrightarrow>
        classifyPort25Error err =
          Inr \<lparr>classified.blocked = JString ''unknown'',
               reason = (if m = [] then ''Unknown error'' else m),
               severity = ''medium'',
               errorCode = Some (case code err of
                                   None \<Rightarrow> ''UNKNOWN''
                                 | Some c \<Rightarrow> if c = [] then ''UNKNOWN'' else c)\<rparr>)"
proof (intro conjI allI impI)
  show "(\<exists>cls. classifyPort25Error err = Inr cls) \<longleftrightarrow>
      message err \<noteq> None \<or> code err = Some ''ECONNREFUSED'' \<or> code err = Some ''ETIMEDOUT''"
  proof (cases "message err")
    case None
    then show ?thesis
      by (simp add: classifyPort25Error_def Let_def timeout_rule_def)
  next
    case (Some m)
    with classify_defined [OF Some] show ?thesis by simp
  qed
next
  fix m
  assume "message err = Some m \<and>
        code err \<notin> Some ` {''ECONNREFUSED'', ''ETIMEDOUT'', ''ENETUNREACH'', ''EHOSTUNREACH'',
                             ''ENOTFOUND'', ''EADDRINUSE''} \<and>
        \<not> str_includes m ''timeout''"
  then show "classifyPort25Error err =
          Inr \<lparr>classified.blocked = JString ''unknown'',
               reason = (if m = [] then ''Unknown error'' else m),
               severity = ''medium'',
               errorCode = Some (case code err of
                                   None \<Rightarrow> ''UNKNOWN''
                                 | Some c \<Rightarrow> if c = [] then ''UNKNOWN'' else c)\<rparr>"
    by (auto simp add: classifyPort25Error_def Let_def timeout_rule_Some or_else_def
          split: option.splits)
qed

text \<open>An error without code and with an empty message, as \<^verbatim>\<open>new Error()\<close> makes it.\<close>

theorem classify_total_witness:
  "message \<lparr>code = None, message = Some []\<rparr> = Some [] \<and>
   code \<lparr>code = None, message = Some []\<rparr> \<notin>
     Some ` {''ECONNREFUSED'', ''ETIMEDOUT'', ''ENETUNREACH'', ''EHOSTUNREACH'',
             ''ENOTFOUND'', ''EADDRINUSE''} \<and>
   \<not> str_includes [] ''timeout'' \<and>
   classifyPort25Error \<lparr>code = None, message = Some []\<rparr> =
     Inr \<lparr>classified.blocked = JString ''unknown'', reason = ''Unknown error'',
          severity = ''medium'', errorCode = Some ''UNKNOWN''\<rparr>"
  using no_timeout_in_empty classify_total [of "\<lparr>code = None, message = Some []\<rparr>"]
  by simp

text \<open>
  The classifier is not total on the errors whose message is absent: without a code, or
  with the code \<^verbatim>\<open>ENOTFOUND\<close>, the call \<^verbatim>\<open>errorMessage.includes('timeout')\<close> raises a
  \<^verbatim>\<open>TypeError\<close>.
\<close>

theorem classify_total_counterexample:
  "classifyPort25Error \<lparr>code = None, message = None\<rparr> = Inl TypeError \<and>
   classifyPort25Error \<lparr>code = Some ''ENOTFOUND'', message = None\<rparr> = Inl TypeError"
  by (simp add: classifyPort25Error_def timeout_rule_def Let_def)

section \<open>Properties of testSingleHost\<close>

text \<open>
  Claim C3. A data chunk that the prober receives while its promise is pending (no data
  chunk, timeout, error or close after connect has settled it before: the chunk is the first
  one) is decoded and trimmed, and decides the outcome: the promise is resolved with
  \<^verbatim>\<open>{success: true, responseTime, banner}\<close>, the banner being the decoded, trimmed text and
  the response time the time elapsed since the start, if and only if the trimmed text starts
  with \<^verbatim>\<open>220\<close>; otherwise it is rejected with an error without code whose message is
  \<^verbatim>\<open>Invalid SMTP banner received: \<close> followed by that text.
\<close>

theorem first_data_chunk:
  assumes "settled (testSingleHost sock) = Pending"
  shows "settled (testSingleHost (sock\<lparr>emitted := emitted sock @ [(now, Data chunk)]\<rparr>)) =
           (if startsWith (trim chunk) ''220'' then
              Resolved \<lparr>probe_result.success = True,
                        responseTime = now - date_now sock,
                        banner = trim chunk\<rparr>
            else
              Rejected \<lparr>code = None,
                        message = Some (''Invalid SMTP banner received: '' @ trim chunk)\<rparr>)"
  using assms
  by (simp add: testSingleHost_append on_data_def resolve_def reject_def socket_destroy_def
        new_Error_def Let_def)

text \<open>A connected socket that receives the greeting of a mail server, 20 ms after the start.\<close>

theorem first_data_chunk_witness:
  "settled (testSingleHost (greeting\<lparr>emitted := [(10, Connect)]\<rparr>)) = Pending \<and>
   settled (testSingleHost greeting) =
     Resolved \<lparr>probe_result.success = True, responseTime = 20,
               banner = ''220 mx.google.com ESMTP ready''\<rparr>"
proof -
  let ?sock = "greeting\<lparr>emitted := [(10, Connect)]\<rparr>"
  have pending: "settled (testSingleHost ?sock) = Pending"
    by (simp add: greeting_def probe_defs)
  from first_data_chunk
         [OF pending, of 20 "''220 mx.google.com ESMTP ready'' @ [CHR 0x0D, CHR 0x0A]"]
       pending
  show ?thesis by (simp add: greeting_def startsWith_def trim_def isWhiteSpace_def)
qed

text \<open>
  Claim C10. Whatever events the socket emits and in whatever order, the promise settles at
  most once: once the events delivered so far have resolved or rejected it, no sequence of
  later events (a close after the destroying timeout, a second data chunk, an error, ...)
  changes the outcome.
\<close>

theorem settles_at_most_once:
  assumes "settled (testSingleHost sock) \<noteq> Pending"
  shows "settled (testSingleHost (sock\<lparr>emitted := emitted sock @ later\<rparr>)) =
           settled (testSingleHost sock)"
  using assms by (simp add: testSingleHost_append foldl_emit_keeps_outcome)

text \<open>A timeout, followed by the close of the destroyed socket and by a late greeting.\<close>

theorem settles_at_most_once_witness:
  "settled (testSingleHost silent) \<noteq> Pending \<and>
   settled (testSingleHost
             (silent\<lparr>emitted := emitted silent @ [(20, Close), (30, Data ''220 late'')]\<rparr>)) =
     Rejected (new_Error ''Connection timeout'')"
proof -
  have out: "settled (testSingleHost silent) = Rejected (new_Error ''Connection timeout'')"
    by (simp add: silent_def probe_defs)
  then have "settled (testSingleHost silent) \<noteq> Pending" by simp
  from settles_at_most_once [OF this, of "[(20, Close), (30, Data ''220 late'')]"] out
  show ?thesis by simp
qed




text \<open>
  Claim C8, as the code has it. Let the socket emit a close event when no data was ever
  received and no error or timeout has been reported (\<^verbatim>\<open>socket.connect\<close> has not thrown, and
  the events so far are connect and close events only). If the connect event is among them,
  the prober fails with the error \<^verbatim>\<open>Connection closed without receiving SMTP banner\<close>.
  If the socket is closed before the connection was established, the close handler does
  nothing and the promise remains pending.
\<close>

theorem close_without_banner:
  assumes "connect_throws sock = None"
      and "\<forall>ev\<in>snd ` set (emitted sock). ev = Connect \<or> ev = Close"
  shows "settled (testSingleHost (sock\<lparr>emitted := emitted sock @ [(now, Close)]\<rparr>)) =
           (if Connect \<in> snd ` set (emitted sock) then
              Rejected (new_Error ''Connection closed without receiving SMTP banner'')
            else Pending)"
proof -
  have "quiet (testSingleHost sock) (Connect \<in> snd ` set (emitted sock))"
    using quiet_run [OF assms(2)] assms(1) by (simp add: testSingleHost_def Let_def)
  then show ?thesis
    by (auto simp add: testSingleHost_append quiet_def on_close_def reject_def)
qed

text \<open>The peer accepts the connection and closes it without a word.\<close>

theorem close_without_banner_witness:
  "connect_throws (hanging_up\<lparr>emitted := [(10, Connect)]\<rparr>) = None \<and>
   list_all (\<lambda>ev. ev = Connect \<or> ev = Close)
     (map snd (emitted (hanging_up\<lparr>emitted := [(10, Connect)]\<rparr>))) \<and>
   Connect \<in> snd ` set (emitted (hanging_up\<lparr>emitted := [(10, Connect)]\<rparr>)) \<and>
   settled (testSingleHost hanging_up) =
     Rejected (new_Error ''Connection closed without receiving SMTP banner'')"
  using close_without_banner [of "hanging_up\<lparr>emitted := [(10, Connect)]\<rparr>" 20]
  by (simp add: hanging_up_def)

text \<open>
  A socket that is closed before the connection is established, with no data, error or
  timeout before: the prober does not fail, its promise remains pending.
\<close>

theorem close_without_banner_counterexample:
  "connect_throws closed_early = None \<and>
   emitted closed_early = [(10, Close)] \<and>
   settled (testSingleHost closed_early) = Pending"
  by (simp add: closed_early_def probe_defs)

section \<open>Properties of checkPort25Connectivity\<close>

text \<open>
  Claim C1, as the code has it. For every run of the check that returns a report:
  \<^verbatim>\<open>attemptedHosts\<close> is a prefix of the hosts of the five fixed targets, which are listed by
  ascending priority, and it ends at the first host whose probe succeeded, or after all five;
  \<^verbatim>\<open>port25Open\<close> holds exactly when the probe of some target succeeded; the \<^verbatim>\<open>errors\<close>
  field is empty when a probe succeeded (the entries of the hosts that failed before it are
  not reported), and when all five failed it holds exactly one entry per attempted host,
  which are then all five, in attempt order, made of the host, the provider and the
  classification of its error; \<^verbatim>\<open>testedHost\<close> and \<^verbatim>\<open>provider\<close> are non-null if and only
  if \<^verbatim>\<open>success\<close> and \<^verbatim>\<open>port25Open\<close> hold.
\<close>

theorem report_invariant:
  assumes "checkPort25Connectivity w = Returns r"
  shows "attemptedHosts r = map target.host (upto_first (succeeded w) testTargets) \<and>
         prefix (attemptedHosts r) (map target.host testTargets) \<and>
         map priority testTargets = [1, 2, 3, 4, 5] \<and>
         (port25Open r \<longleftrightarrow> (\<exists>t\<in>set testTargets. succeeded w t)) \<and>
         ((\<exists>t\<in>set testTargets. succeeded w t) \<longrightarrow> report.errors r = []) \<and>
         ((\<forall>t\<in>set testTargets. \<not> succeeded w t) \<longrightarrow>
            attemptedHosts r = map target.host testTargets \<and>
            map Some (report.errors r) = map (failed_entry w) testTargets \<and>
            map host_error.host (report.errors r) = attemptedHosts r) \<and>
         (testedHost r \<noteq> None \<longleftrightarrow> report.success r \<and> port25Open r) \<and>
         (report.provider r \<noteq> None \<longleftrightarrow> report.success r \<and> port25Open r)"
proof -
  note facts = test_each_Returns [OF assms [unfolded checkPort25Connectivity_def]]
  from facts
  have att: "attemptedHosts r = map target.host (upto_first (succeeded w) testTargets)"
    by simp
  have pre: "prefix (attemptedHosts r) (map target.host testTargets)"
    unfolding att by (rule map_mono_prefix) (rule upto_first_prefix)
  have prio: "map priority testTargets = [1, 2, 3, 4, 5]"
    by (simp add: testTargets_def)
  have opened: "port25Open r \<longleftrightarrow> (\<exists>t\<in>set testTargets. succeeded w t)"
    using facts by blast
  have open_case: "(\<exists>t\<in>set testTargets. succeeded w t) \<longrightarrow> report.errors r = []"
    using facts opened by blast
  have closed_case: "(\<forall>t\<in>set testTargets. \<not> succeeded w t) \<longrightarrow>
      attemptedHosts r = map target.host testTargets \<and>
      map Some (report.errors r) = map (failed_entry w) testTargets \<and>
      map host_error.host (report.errors r) = attemptedHosts r"
  proof
    assume none: "\<forall>t\<in>set testTargets. \<not> succeeded w t"
    with opened have closed: "\<not> port25Open r" by blast
    with facts have entries: "map Some (report.errors r) = map (failed_entry w) testTargets"
      by simp
    from none have all: "attemptedHosts r = map target.host testTargets"
      unfolding att by (simp add: upto_first_none)
    with failed_entry_hosts [OF entries] entries
    show "attemptedHosts r = map target.host testTargets \<and>
      map Some (report.errors r) = map (failed_entry w) testTargets \<and>
      map host_error.host (report.errors r) = attemptedHosts r"
      by simp
  qed
  have tested: "testedHost r \<noteq> None \<longleftrightarrow> report.success r \<and> port25Open r"
    using facts by auto
  have prov: "report.provider r \<noteq> None \<longleftrightarrow> report.success r \<and> port25Open r"
    using facts by auto
  from att pre prio opened open_case closed_case tested prov show ?thesis by blast
qed

text \<open>
  A check whose second probe is greeted after the first was refused, and a check whose five
  probes are refused.
\<close>

theorem report_invariant_witness:
  "checkPort25Connectivity (first_then refusing greeting) = Returns fallback_report \<and>
   list_ex (succeeded (first_then refusing greeting)) testTargets \<and>
   port25Open fallback_report \<and>
   prefix (attemptedHosts fallback_report) (map target.host testTargets) \<and>
   report.errors fallback_report = [] \<and>
   testedHost fallback_report \<noteq> None \<and>
   list_all (\<lambda>t. \<not> succeeded (everywhere refusing) t) testTargets \<and>
   (case checkPort25Connectivity (everywhere refusing) of
      Returns r \<Rightarrow>
        \<not> port25Open r \<and> testedHost r = None \<and>
        length (report.errors r) = 5 \<and>
        map host_error.host (report.errors r) = attemptedHosts r \<and>
        attemptedHosts r = map target.host testTargets
    | _ \<Rightarrow> False)"
proof -
  note first = report_invariant [OF check_fallback]
  have some: "\<exists>t\<in>set testTargets. succeeded (first_then refusing greeting) t"
    by (simp add: succeeded_def awaited_def testTargets_def scenario_defs probe_defs)
  have succ: "report.success fallback_report"
    by (simp add: fallback_report_def)
  from first some have opened: "port25Open fallback_report"
    by blast
  from first have p1: "prefix (attemptedHosts fallback_report) (map target.host testTargets)"
    by blast
  from first some have e1: "report.errors fallback_report = []"
    by blast
  from first opened succ have t1: "testedHost fallback_report \<noteq> None"
    by blast
  obtain r where r: "checkPort25Connectivity (everywhere refusing) = Returns r"
    using check_all_refusing by blast
  note second = report_invariant [OF r]
  have none: "\<forall>t\<in>set testTargets. \<not> succeeded (everywhere refusing) t"
    by (simp add: succeeded_def awaited_def testTargets_def scenario_defs probe_defs)
  from second none have closed: "\<not> port25Open r"
    by blast
  from second none have a2: "attemptedHosts r = map target.host testTargets"
    by blast
  from second none have e2: "map host_error.host (report.errors r) = attemptedHosts r"
    by blast
  from e2 a2 have "length (map host_error.host (report.errors r)) = length testTargets"
    by simp
  then have l2: "length (report.errors r) = 5"
    by (simp add: testTargets_def)
  from second closed have t2: "testedHost r = None"
    by blast
  have "case Returns r of
      Returns r \<Rightarrow>
        \<not> port25Open r \<and> testedHost r = None \<and>
        length (report.errors r) = 5 \<and>
        map host_error.host (report.errors r) = attemptedHosts r \<and>
        attemptedHosts r = map target.host testTargets
    | _ \<Rightarrow> False"
    using closed t2 l2 e2 a2 by simp
  with check_fallback some opened p1 e1 t1 none show ?thesis
    unfolding r list_ex_iff list_all_iff by blast
qed

text \<open>
  The \<^verbatim>\<open>errors\<close> field does not hold one entry per attempted host that failed: when the
  first probe is refused and the second is greeted, both hosts were attempted, the first one
  failed, and the report has no entry at all.
\<close>

theorem report_invariant_counterexample:
  "awaited (first_then refusing greeting) (testTargets ! 0) =
     Rejected \<lparr>code = Some ''ECONNREFUSED'', message = Some ''Connection refused''\<rparr> \<and>
   map_option attemptedHosts (returned (checkPort25Connectivity (first_then refusing greeting))) =
     Some [''mxshield.brandnav.io'', ''gmail-smtp-in.l.google.com''] \<and>
   map_option report.errors (returned (checkPort25Connectivity (first_then refusing greeting))) =
     Some []"
  by (simp add: awaited_first_then_refusing check_fallback returned_def fallback_report_def)

text \<open>
  Claim C2. For every combination of per-host probe outcomes (success, rejection, timeout),
  the check returns a populated report and propagates no exception; and in every report that
  it returns, the all-hosts-failed report included, the flag \<^verbatim>\<open>success\<close> is \<^verbatim>\<open>true\<close>.
  A probe outcome is a settled promise; the error of a rejection is an \<^verbatim>\<open>Error\<close> object
  and so carries a message: the prober rejects with \<^verbatim>\<open>new Error(text)\<close> or with the error
  that the socket handed to it.
\<close>

theorem check_completes:
  assumes "\<forall>t\<in>set testTargets. settles_with_message w t"
  shows "(\<exists>r. checkPort25Connectivity w = Returns r) \<and>
         (\<forall>r. checkPort25Connectivity w = Returns r \<longrightarrow> report.success r)"
  using test_each_total [OF assms] test_each_Returns
  unfolding checkPort25Connectivity_def by blast

text \<open>The five probes fail with a DNS error, as in the test "should handle DNS failures".\<close>

theorem check_completes_witness:
  "list_all (settles_with_message (everywhere unresolvable)) testTargets \<and>
   (\<exists>r. checkPort25Connectivity (everywhere unresolvable) = Returns r \<and> report.success r)"
proof -
  have ok: "\<forall>t\<in>set testTargets. settles_with_message (everywhere unresolvable) t"
    using unresolvable_everywhere(1) by (simp add: fails_with_message_settles)
  from check_completes [OF ok] ok show ?thesis
    unfolding list_all_iff by blast
qed

text \<open>
  Claim C4, as the code has it. For every run in which all five probes fail, with errors
  that carry a message, the check returns the all-hosts-failed report, whose \<^verbatim>\<open>errors\<close> are
  the classified errors of the five hosts, and the recommendation is computed from them in
  this precedence: if every entry has \<^verbatim>\<open>blocked = true\<close>, the "Port 25 is blocked ..." text;
  else if any entry has \<^verbatim>\<open>blocked = 'unknown'\<close>, the "Unable to determine ..." text;
  otherwise the "DNS or network issues detected ..." text. In particular, when all five fail
  with the code \<^verbatim>\<open>ENOTFOUND\<close> and messages that do not contain \<^verbatim>\<open>timeout\<close>, the
  recommendation contains "DNS or network issues".
\<close>

theorem recommendation_precedence:
  assumes "\<forall>t\<in>set testTargets. fails_with_message w t"
  shows "\<exists>r. checkPort25Connectivity w = Returns r \<and>
              \<not> port25Open r \<and>
              map Some (report.errors r) = map (failed_entry w) testTargets \<and>
              recommendation r =
                Some (if \<forall>e\<in>set (report.errors r). host_error.blocked e = JBool True then
                        ''Port 25 is blocked by your network/ISP. Consider using a VPS or cloud server with port 25 access for email verification.''
                      else if \<exists>e\<in>set (report.errors r).
                                host_error.blocked e = JString ''unknown'' then
                        ''Unable to determine port 25 status. Some hosts returned unexpected errors. Check your network configuration.''
                      else
                        ''DNS or network issues detected. Verify your internet connection and DNS settings.'') \<and>
              ((\<forall>t\<in>set testTargets. fails_name_not_found w t) \<longrightarrow>
                 (\<exists>advice. recommendation r = Some advice \<and>
                           str_includes advice ''DNS or network issues''))"
proof -
  from assms have "\<forall>t\<in>set testTargets. settles_with_message w t"
    by (simp add: fails_with_message_settles)
  from test_each_total [OF this]
  obtain r where r: "checkPort25Connectivity w = Returns r"
    unfolding checkPort25Connectivity_def by blast
  note facts = test_each_Returns [OF r [unfolded checkPort25Connectivity_def]]
  have closed: "\<not> port25Open r"
  proof
    assume "port25Open r"
    with facts obtain t where "t \<in> set testTargets" "succeeded w t" by auto
    with assms show False by (auto dest: fails_with_message_not_succeeded)
  qed
  with facts have entries: "map Some (report.errors r) = map (failed_entry w) testTargets"
    and rec: "recommendation r = Some (recommend (report.errors r))"
    by simp_all
  have dns: "(\<forall>t\<in>set testTargets. fails_name_not_found w t) \<longrightarrow>
       (\<exists>advice. recommendation r = Some advice \<and>
                 str_includes advice ''DNS or network issues'')"
  proof
    assume nf: "\<forall>t\<in>set testTargets. fails_name_not_found w t"
    from not_found_entries [OF entries nf]
    have all_false: "\<forall>e\<in>set (report.errors r). host_error.blocked e = JBool False" .
    from entries have "length (report.errors r) = length testTargets"
      by (metis length_map)
    then have "report.errors r \<noteq> []"
      by (auto simp add: testTargets_def)
    with all_false have "recommend (report.errors r) =
        ''DNS or network issues detected. Verify your internet connection and DNS settings.''"
      unfolding recommend_cases by (cases "report.errors r") auto
    with rec dns_text_includes
    show "\<exists>advice. recommendation r = Some advice \<and>
                   str_includes advice ''DNS or network issues''"
      by simp
  qed
  from r closed entries rec dns show ?thesis
    unfolding recommend_cases by blast
qed

text \<open>The five probes fail with a DNS error, as in the test "should handle DNS failures".\<close>

theorem recommendation_precedence_witness:
  "list_all (fails_with_message (everywhere unresolvable)) testTargets \<and>
   list_all (fails_name_not_found (everywhere unresolvable)) testTargets \<and>
   (\<exists>r advice. checkPort25Connectivity (everywhere unresolvable) = Returns r \<and>
        recommendation r = Some advice \<and> str_includes advice ''DNS or network issues'')"
  using recommendation_precedence [OF unresolvable_everywhere(1)] unresolvable_everywhere
  unfolding list_all_iff by blast

text \<open>
  Five failures with the code \<^verbatim>\<open>ENOTFOUND\<close> do not always yield the DNS recommendation: the
  rule for \<^verbatim>\<open>timeout\<close> in the message comes before the rule for \<^verbatim>\<open>ENOTFOUND\<close>, so five
  such errors with the message \<^verbatim>\<open>DNS lookup timeout\<close> are all classified as blocked, and
  the recommendation is the "Port 25 is blocked ..." text.
\<close>

theorem recommendation_precedence_counterexample:
  "map (awaited (everywhere dns_timeout)) testTargets =
     replicate 5 (Rejected \<lparr>code = Some ''ENOTFOUND'', message = Some ''DNS lookup timeout''\<rparr>) \<and>
   map_option recommendation (returned (checkPort25Connectivity (everywhere dns_timeout))) =
     Some (Some ''Port 25 is blocked by your network/ISP. Consider using a VPS or cloud server with port 25 access for email verification.'') \<and>
   \<not> str_includes
       ''Port 25 is blocked by your network/ISP. Consider using a VPS or cloud server with port 25 access for email verification.''
       ''DNS or network issues''"
proof -
  have "map (awaited (everywhere dns_timeout)) testTargets =
     replicate 5 (Rejected \<lparr>code = Some ''ENOTFOUND'', message = Some ''DNS lookup timeout''\<rparr>)"
    by (simp add: awaited_def testTargets_def scenario_defs probe_defs eval_nat_numeral)
  moreover
  have "map_option recommendation (returned (checkPort25Connectivity (everywhere dns_timeout))) =
     Some (Some ''Port 25 is blocked by your network/ISP. Consider using a VPS or cloud server with port 25 access for email verification.'')"
    by (simp add: returned_def check_defs scenario_defs probe_defs timeout_in_DNS_lookup_timeout)
  ultimately show ?thesis
    using blocked_text_excludes by blast
qed

text \<open>
  Claim C9, as the code has it. For every run in which the probe of target 1 fails and the
  probe of target 2 succeeds, the check returns (unless the classifier raises an exception on
  the error of target 1) the success report of target 2: \<^verbatim>\<open>attemptedHosts\<close> holds the hosts of
  targets 1 and 2, \<^verbatim>\<open>testedHost\<close> and \<^verbatim>\<open>provider\<close> are those of target 2, and the \<^verbatim>\<open>errors\<close>
  field is empty: the entry pushed for target 1 is not reported.
\<close>

theorem fallback_to_second_target:
  assumes "awaited w (testTargets ! 0) = Rejected err"
      and "awaited w (testTargets ! 1) = Resolved res"
  shows "checkPort25Connectivity w =
           (case classifyPort25Error err of
              Inl exn \<Rightarrow> Throws exn
            | Inr cls \<Rightarrow>
                Returns
                  \<lparr>report.success = True,
                   port25Open = True,
                   canVerifyEmails = True,
                   testedHost = Some (target.host (testTargets ! 1)),
                   provider = Some (target.provider (testTargets ! 1)),
                   attemptedHosts =
                     [target.host (testTargets ! 0), target.host (testTargets ! 1)],
                   responseTime = Some (probe_result.responseTime res),
                   totalTime = now_on_return w - now_on_entry w,
                   smtpBanner = Some (banner res),
                   error = None,
                   errors = [],
                   recommendation = None,
                   timestamp = iso_on_return w\<rparr>)"
  using assms
  by (simp add: checkPort25Connectivity_def testTargets_def awaited_def split: sum.splits)

text \<open>The first probe is refused and the second is greeted, as in the test of the fallback.\<close>

theorem fallback_to_second_target_witness:
  "awaited (first_then refusing greeting) (testTargets ! 0) =
     Rejected \<lparr>code = Some ''ECONNREFUSED'', message = Some ''Connection refused''\<rparr> \<and>
   awaited (first_then refusing greeting) (testTargets ! 1) =
     Resolved \<lparr>probe_result.success = True, responseTime = 20,
               banner = ''220 mx.google.com ESMTP ready''\<rparr> \<and>
   checkPort25Connectivity (first_then refusing greeting) = Returns fallback_report"
  using fallback_to_second_target [OF awaited_first_then_refusing awaited_first_then_greeting]
    awaited_first_then_refusing awaited_first_then_greeting [of refusing]
  by (simp add: classifyPort25Error_def Let_def testTargets_def first_then_def
        fallback_report_def)

text \<open>
  The report does not hold an entry for target 1: when the first probe times out and the
  second is greeted, \<^verbatim>\<open>attemptedHosts\<close> has length 2 and \<^verbatim>\<open>testedHost\<close> is the host of
  target 2, but the \<^verbatim>\<open>errors\<close> field is empty.
\<close>

theorem fallback_to_second_target_counterexample:
  "awaited (first_then silent greeting) (testTargets ! 0) =
     Rejected (new_Error ''Connection timeout'') \<and>
   awaited (first_then silent greeting) (testTargets ! 1) =
     Resolved \<lparr>probe_result.success = True, responseTime = 20,
               banner = ''220 mx.google.com ESMTP ready''\<rparr> \<and>
   map_option testedHost (returned (checkPort25Connectivity (first_then silent greeting))) =
     Some (Some ''gmail-smtp-in.l.google.com'') \<and>
   map_option (length \<circ> attemptedHosts)
     (returned (checkPort25Connectivity (first_then silent greeting))) = Some 2 \<and>
   map_option (length \<circ> report.errors)
     (returned (checkPort25Connectivity (first_then silent greeting))) = Some 0"
proof -
  have "checkPort25Connectivity (first_then silent greeting) = Returns fallback_report"
    by (simp add: check_defs scenario_defs probe_defs fallback_report_def
          timeout_in_Connection_timeout)
  with awaited_first_then_silent awaited_first_then_greeting [of silent]
  show ?thesis by (simp add: returned_def fallback_report_def)
qed

end
